theory Spec2Isabelle
  imports Main
begin

section \<open>ShellPilot: the page component of the web frontend\<close>

text \<open>
  The repository's sources hold one program file, \<^verbatim>\<open>src/frontend/src/app/page.tsx\<close>
  (beside it there is only the README). It imports four icon components from
  \<^verbatim>\<open>lucide-react\<close> and exports one function, \<^verbatim>\<open>Home\<close>, whose whole body is
  \<^verbatim>\<open>return ( <div ...> ... </div> )\<close>: a single JSX literal. The function declares no
  parameter, calls no hook, and the literal holds no \<^verbatim>\<open>{...}\<close> container other than
  comments.

  The command model, risk classifier, provider gateway, confirmation gate, execution
  engine and session ledger that the specification designs have no source in the
  repository (its README lists the command executor as still to come), so nothing of
  them is embedded here.
\<close>

subsection \<open>JSX element trees\<close>

text \<open>
  A JSX attribute is written either with a string literal (\<^verbatim>\<open>className="flex"\<close>) or with
  a JavaScript expression in braces (\<^verbatim>\<open>onClick={send}\<close>); a child is an element, a run
  of text, or a JavaScript expression in braces. The expression forms carry the source
  text of the expression. Lower-case tags are host elements, capitalised tags are
  components.

  Text is kept as the bytes of the source file (UTF-8), after JSX's own whitespace rule:
  a text run that spans lines loses its line breaks and the indentation around them, a
  text run on one line is kept as written (so \<^verbatim>\<open>$ \<close> keeps its space). A comment
  container \<^verbatim>\<open>{/* ... */}\<close> holds an empty expression and yields no child.
\<close>

datatype prop_value = StringLiteral string | Expression string

datatype jsx =
    Element string "(string \<times> prop_value) list" "jsx list"
  | JsxText string
  | JsxExpression string

definition className :: "string \<Rightarrow> string \<times> prop_value" where
  "className v = (''className'', StringLiteral v)"

text \<open>The three characters of the page outside ASCII, as their UTF-8 bytes.\<close>

definition helicopter :: string where
  "helicopter = [CHR 0xF0, CHR 0x9F, CHR 0x9A, CHR 0x81]"  \<comment> \<open>U+1F681, line 12\<close>

definition bullet :: string where
  "bullet = [CHR 0xE2, CHR 0x80, CHR 0xA2]"  \<comment> \<open>U+2022, line 42\<close>

definition robot :: string where
  "robot = [CHR 0xF0, CHR 0x9F, CHR 0xA4, CHR 0x96]"  \<comment> \<open>U+1F916, line 85\<close>

text \<open>Line 3: the names imported from \<^verbatim>\<open>lucide-react\<close>.\<close>

definition lucide_react :: "string list" where
  "lucide_react = [''Terminal'', ''MessageCircle'', ''Settings'', ''Activity'']"

subsection \<open>The component\<close>

text \<open>
  \<^verbatim>\<open>Home\<close> declares no parameter, but a JavaScript function can be called with any
  arguments (the framework hands a page component its props) and could read whatever is
  ambient: component state, the clock, a random source, a connection. All of that is the
  argument \<open>env\<close>, of any type; the body below never looks at it, as the source never
  does. The tree follows the source top to bottom; the comments name the source's own
  section comments.
\<close>

definition Home :: "'env \<Rightarrow> jsx" where
  "Home env =
    Element ''div'' [className ''min-h-screen bg-slate-950 text-slate-100''] [
      \<comment> \<open>Header\<close>
      Element ''header'' [className ''border-b border-slate-800 bg-slate-900 px-6 py-4''] [
        Element ''div'' [className ''flex items-center justify-between''] [
          Element ''div'' [className ''flex items-center space-x-3''] [
            Element ''div'' [className ''text-2xl''] [JsxText helicopter],
            Element ''h1'' [className ''text-xl font-bold''] [JsxText ''ShellPilot'']
          ],
          Element ''div'' [className ''flex items-center space-x-4''] [
            Element ''div'' [className ''flex items-center space-x-2 text-sm text-slate-400''] [
              Element ''div'' [className ''h-2 w-2 rounded-full bg-green-500''] [],
              Element ''span'' [] [JsxText ''Connected'']
            ],
            Element ''button'' [className ''rounded-md border border-slate-700 p-2 hover:bg-slate-800''] [
              Element ''Settings'' [className ''h-4 w-4''] []
            ]
          ]
        ]
      ],
      \<comment> \<open>Main Split Layout\<close>
      Element ''div'' [className ''flex h-[calc(100vh-73px)]''] [
        \<comment> \<open>Left Panel - Terminal\<close>
        Element ''div'' [className ''flex-1 border-r border-slate-800 bg-slate-900''] [
          Element ''div'' [className ''flex h-full flex-col''] [
            \<comment> \<open>Terminal Header\<close>
            Element ''div'' [className ''border-b border-slate-800 px-4 py-3''] [
              Element ''div'' [className ''flex items-center justify-between''] [
                Element ''div'' [className ''flex items-center space-x-2''] [
                  Element ''Terminal'' [className ''h-4 w-4 text-slate-400''] [],
                  Element ''span'' [className ''text-sm font-medium''] [JsxText ''Terminal'']
                ],
                Element ''div'' [className ''flex items-center space-x-2 text-xs text-slate-500''] [
                  Element ''Activity'' [className ''h-3 w-3''] [],
                  Element ''span'' [] [JsxText (''Session: 0m '' @ bullet @ '' Commands: 0'')]
                ]
              ]
            ],
            \<comment> \<open>Terminal Content\<close>
            Element ''div'' [className ''flex-1 p-4''] [
              Element ''div'' [className ''h-full rounded-lg bg-slate-950 p-4 font-mono text-sm''] [
                Element ''div'' [className ''mb-2 text-slate-300''] [JsxText ''Welcome to ShellPilot Terminal''],
                Element ''div'' [className ''mb-4 text-xs text-slate-500''] [
                  JsxText ''AI-powered Linux system administration''
                ],
                Element ''div'' [className ''flex items-center text-slate-300''] [
                  Element ''span'' [className ''text-green-400''] [JsxText ''raghav@shellpilot''],
                  Element ''span'' [className ''text-slate-500''] [JsxText '':''],
                  Element ''span'' [className ''text-blue-400''] [JsxText ''~''],
                  Element ''span'' [className ''text-slate-500''] [JsxText ''$ ''],
                  Element ''span'' [className ''ml-1 animate-pulse''] [JsxText ''_'']
                ]
              ]
            ]
          ]
        ],
        \<comment> \<open>Right Panel - AI Chat\<close>
        Element ''div'' [className ''w-96 bg-slate-900''] [
          Element ''div'' [className ''flex h-full flex-col''] [
            \<comment> \<open>Chat Header\<close>
            Element ''div'' [className ''border-b border-slate-800 px-4 py-3''] [
              Element ''div'' [className ''flex items-center justify-between''] [
                Element ''div'' [className ''flex items-center space-x-2''] [
                  Element ''MessageCircle'' [className ''h-4 w-4 text-slate-400''] [],
                  Element ''span'' [className ''text-sm font-medium''] [JsxText ''AI Assistant'']
                ],
                Element ''div'' [className ''text-xs text-slate-500''] [JsxText ''DeepSeek R1'']
              ]
            ],
            \<comment> \<open>Chat Content\<close>
            Element ''div'' [className ''flex-1 p-4''] [
              Element ''div'' [className ''flex h-full flex-col space-y-4''] [
                \<comment> \<open>Welcome Message\<close>
                Element ''div'' [className ''rounded-lg bg-slate-800 p-3 text-sm''] [
                  Element ''div'' [className ''mb-1 font-medium text-blue-400''] [
                    JsxText (robot @ '' ShellPilot AI'')
                  ],
                  Element ''div'' [className ''text-slate-300''] [
                    JsxText ''Hello! I'm your AI Linux assistant. What would you like to do today?''
                  ]
                ],
                \<comment> \<open>Quick Actions\<close>
                Element ''div'' [className ''space-y-2''] [
                  Element ''div'' [className ''text-xs font-medium text-slate-400''] [JsxText ''Quick Actions''],
                  Element ''div'' [className ''space-y-1''] [
                    Element ''button''
                      [className ''w-full rounded-md bg-slate-800 px-3 py-2 text-left text-xs hover:bg-slate-700'']
                      [JsxText ''Check system performance''],
                    Element ''button''
                      [className ''w-full rounded-md bg-slate-800 px-3 py-2 text-left text-xs hover:bg-slate-700'']
                      [JsxText ''Install development tools''],
                    Element ''button''
                      [className ''w-full rounded-md bg-slate-800 px-3 py-2 text-left text-xs hover:bg-slate-700'']
                      [JsxText ''Set up web server'']
                  ]
                ],
                \<comment> \<open>Spacer\<close>
                Element ''div'' [className ''flex-1''] [],
                \<comment> \<open>Input Area\<close>
                Element ''div'' [className ''space-y-2''] [
                  Element ''input''
                    [(''type'', StringLiteral ''text''),
                     (''placeholder'', StringLiteral ''Type your request here...''),
                     className ''w-full rounded-md bg-slate-800 border border-slate-700 px-3 py-2 text-sm placeholder-slate-500 focus:border-slate-600 focus:outline-none'']
                    [],
                  Element ''div'' [className ''flex space-x-2''] [
                    Element ''button''
                      [className ''flex-1 rounded-md bg-blue-600 px-3 py-2 text-sm font-medium hover:bg-blue-700'']
                      [JsxText ''Send''],
                    Element ''button''
                      [className ''rounded-md border border-slate-700 px-3 py-2 text-sm hover:bg-slate-800'']
                      [JsxText ''Workflow'']
                  ]
                ]
              ]
            ]
          ]
        ]
      ]
    ]"

subsection \<open>Reading a tree\<close>

text \<open>
  What a rendered page can show or do is read off its tree: the text runs, the elements
  with their props, and the JavaScript expressions embedded in it (as a prop's value or
  as a child), all in document order. An event handler, a computed text or a conditional
  part would each be such an expression.
\<close>

fun texts :: "jsx \<Rightarrow> string list" where
  "texts (Element tag props children) = concat (map texts children)"
| "texts (JsxText s) = [s]"
| "texts (JsxExpression e) = []"

fun elements :: "jsx \<Rightarrow> (string \<times> (string \<times> prop_value) list) list" where
  "elements (Element tag props children) = (tag, props) # concat (map elements children)"
| "elements (JsxText s) = []"
| "elements (JsxExpression e) = []"

fun prop_expressions :: "(string \<times> prop_value) list \<Rightarrow> string list" where
  "prop_expressions [] = []"
| "prop_expressions ((name, StringLiteral s) # ps) = prop_expressions ps"
| "prop_expressions ((name, Expression e) # ps) = e # prop_expressions ps"

fun expressions :: "jsx \<Rightarrow> string list" where
  "expressions (Element tag props children) =
     prop_expressions props @ concat (map expressions children)"
| "expressions (JsxText s) = []"
| "expressions (JsxExpression e) = [e]"

definition tags :: "jsx \<Rightarrow> string list" where
  "tags t = map fst (elements t)"

definition prop_names :: "jsx \<Rightarrow> string list" where
  "prop_names t = concat (map (\<lambda>(tag, props). map fst props) (elements t))"

text \<open>
  JSX takes a tag as a host element when it starts with a lower-case letter (a to z, 97
  to 122) and is not a member expression (\<^verbatim>\<open>ui.Button\<close>); any other tag names a
  component: one that starts with a capital letter, with \<^verbatim>\<open>_\<close> or \<^verbatim>\<open>$\<close>, or one with
  a dot in it.
\<close>

definition is_component :: "string \<Rightarrow> bool" where
  "is_component tag =
     (case tag of
        [] \<Rightarrow> False
      | c # _ \<Rightarrow> of_char c < (97::nat) \<or> (122::nat) < of_char c \<or> CHR ''.'' \<in> set tag)"

text \<open>The node reached from the root by a list of child positions, counted from 0.\<close>

fun subtree :: "jsx \<Rightarrow> nat list \<Rightarrow> jsx option" where
  "subtree t [] = Some t"
| "subtree (Element tag props children) (i # path) =
     (if i < length children then subtree (children ! i) path else None)"
| "subtree (JsxText s) (i # path) = None"
| "subtree (JsxExpression e) (i # path) = None"

text \<open>The direct children of a node.\<close>

fun child_nodes :: "jsx \<Rightarrow> jsx list" where
  "child_nodes (Element tag props children) = children"
| "child_nodes (JsxText s) = []"
| "child_nodes (JsxExpression e) = []"

text \<open>
  The elements an operator can act on, each with the names of its props in the order
  written: a behaviour could only be attached to the page through a prop of one of them
  (\<^verbatim>\<open>onClick\<close>, \<^verbatim>\<open>onChange\<close>, \<^verbatim>\<open>onSubmit\<close>, \<^verbatim>\<open>action\<close>, \<^verbatim>\<open>href\<close>).
\<close>

definition controls :: "jsx \<Rightarrow> (string \<times> string list) list" where
  "controls t =
     map (\<lambda>(tag, props). (tag, map fst props))
       (filter (\<lambda>(tag, props). tag \<in> set [''button'', ''input'', ''textarea'', ''select'', ''form'', ''a''])
          (elements t))"

subsection \<open>The files of the sources\<close>

text \<open>
  The sources hold two files. \<^verbatim>\<open>frontend/src/app/page.tsx\<close> is the module above: after
  the \<^verbatim>\<open>'use client'\<close> directive it has one import (line 3, from \<^verbatim>\<open>lucide-react\<close>) and
  one function declaration (line 5, \<^verbatim>\<open>export default function Home()\<close>), and no other
  top-level statement. The other file, \<^verbatim>\<open>unnamed/part_000\<close>, is the README: Markdown
  prose, a checklist and a two-line shell snippet; it defines no function and imports
  nothing. Its checklist speaks of a Python command-line tool as built; no file of that
  tool is among the sources, so it is no part of this list.
\<close>

datatype language = TypeScriptJSX | Markdown

record source_file =
  file_path :: string
  file_language :: language
  imported_modules :: "string list"
  declared_functions :: "string list"

definition sources :: "source_file list" where
  "sources =
     [\<lparr>file_path = ''frontend/src/app/page.tsx'', file_language = TypeScriptJSX,
        imported_modules = [''lucide-react''], declared_functions = [''Home'']\<rparr>,
      \<lparr>file_path = ''unnamed/part_000'', file_language = Markdown,
        imported_modules = [], declared_functions = []\<rparr>]"

section \<open>Properties of the page\<close>

text \<open>
  Claim C2. The only program of the repository is a static visual mockup of a two-pane
  terminal and chat interface.
  \<^item> Only program: over all files of the sources, the one function declared is \<open>Home\<close>
    and the one module imported is the icon library lucide-react (no process, network
    or LLM client module).
  \<^item> Fixed markup: whatever \<open>Home\<close> is called with, it returns the tree it returns when
    called with nothing.
  \<^item> No behaviour: that tree embeds no JavaScript expression at all, neither as the value
    of a prop nor as a child, so nothing is computed, interpreted, executed or sent
    anywhere. Its only props are \<open>className\<close>, \<open>type\<close> and \<open>placeholder\<close>. Its controls
    are six buttons and one text input, in this order, and each button carries
    \<open>className\<close> alone and the input \<open>type\<close>, \<open>placeholder\<close> and \<open>className\<close> alone: no
    event handler, form action or link target. Its components are the four imported
    icons, once each; its 58 elements are otherwise div, header, h1, span, button and
    input.
  \<^item> Two panes: the root has two children, the header (title ShellPilot, indicator
    Connected) and the split layout; the split layout has exactly two children, the
    terminal pane (title Terminal, the session counters, the welcome lines and a fixed
    prompt) and the chat pane (title AI Assistant, the model label, the welcome message,
    three quick actions, Send and Workflow). These are all the text runs of the page.
\<close>

theorem Home_static_mockup:
  "concat (map declared_functions sources) = [''Home'']
   \<and> concat (map imported_modules sources) = [''lucide-react'']
   \<and> Home env = Home ()
   \<and> expressions (Home env) = []
   \<and> set (prop_names (Home env)) = {''className'', ''type'', ''placeholder''}
   \<and> controls (Home env) =
        [(''button'', [''className'']),
         (''button'', [''className'']), (''button'', [''className'']), (''button'', [''className'']),
         (''input'', [''type'', ''placeholder'', ''className'']),
         (''button'', [''className'']), (''button'', [''className''])]
   \<and> filter is_component (tags (Home env))
        = [''Settings'', ''Terminal'', ''Activity'', ''MessageCircle'']
   \<and> set (filter is_component (tags (Home env))) = set lucide_react
   \<and> set (filter (\<lambda>tag. \<not> is_component tag) (tags (Home env)))
        = {''div'', ''header'', ''h1'', ''span'', ''button'', ''input''}
   \<and> length (elements (Home env)) = 58
   \<and> map texts (child_nodes (Home env)) =
        [[helicopter, ''ShellPilot'', ''Connected''],
         [''Terminal'', ''Session: 0m '' @ bullet @ '' Commands: 0'',
          ''Welcome to ShellPilot Terminal'', ''AI-powered Linux system administration'',
          ''raghav@shellpilot'', '':'', ''~'', ''$ '', ''_'',
          ''AI Assistant'', ''DeepSeek R1'', robot @ '' ShellPilot AI'',
          ''Hello! I'm your AI Linux assistant. What would you like to do today?'',
          ''Quick Actions'', ''Check system performance'', ''Install development tools'',
          ''Set up web server'', ''Send'', ''Workflow'']]
   \<and> map_option (map texts \<circ> child_nodes) (subtree (Home env) [1]) =
        Some [[''Terminal'', ''Session: 0m '' @ bullet @ '' Commands: 0'',
               ''Welcome to ShellPilot Terminal'', ''AI-powered Linux system administration'',
               ''raghav@shellpilot'', '':'', ''~'', ''$ '', ''_''],
              [''AI Assistant'', ''DeepSeek R1'', robot @ '' ShellPilot AI'',
               ''Hello! I'm your AI Linux assistant. What would you like to do today?'',
               ''Quick Actions'', ''Check system performance'', ''Install development tools'',
               ''Set up web server'', ''Send'', ''Workflow'']]"
proof (intro conjI)
  show "concat (map declared_functions sources) = [''Home'']"
    by (simp add: sources_def)
  show "concat (map imported_modules sources) = [''lucide-react'']"
    by (simp add: sources_def)
  show "Home env = Home ()"
    by (simp add: Home_def)
  show "expressions (Home env) = []"
    by (simp add: Home_def className_def)
  show "set (prop_names (Home env)) = {''className'', ''type'', ''placeholder''}"
    by (auto simp add: Home_def className_def prop_names_def)
  show "controls (Home env) =
        [(''button'', [''className'']),
         (''button'', [''className'']), (''button'', [''className'']), (''button'', [''className'']),
         (''input'', [''type'', ''placeholder'', ''className'']),
         (''button'', [''className'']), (''button'', [''className''])]"
    by (simp add: Home_def className_def controls_def)
  show "filter is_component (tags (Home env))
        = [''Settings'', ''Terminal'', ''Activity'', ''MessageCircle'']"
    by (simp add: Home_def tags_def is_component_def)
  show "set (filter is_component (tags (Home env))) = set lucide_react"
    by (auto simp add: Home_def tags_def is_component_def lucide_react_def)
  show "set (filter (\<lambda>tag. \<not> is_component tag) (tags (Home env)))
        = {''div'', ''header'', ''h1'', ''span'', ''button'', ''input''}"
    by (auto simp add: Home_def tags_def is_component_def)
  show "length (elements (Home env)) = 58"
    by (simp add: Home_def)
  show "map texts (child_nodes (Home env)) =
        [[helicopter, ''ShellPilot'', ''Connected''],
         [''Terminal'', ''Session: 0m '' @ bullet @ '' Commands: 0'',
          ''Welcome to ShellPilot Terminal'', ''AI-powered Linux system administration'',
          ''raghav@shellpilot'', '':'', ''~'', ''$ '', ''_'',
          ''AI Assistant'', ''DeepSeek R1'', robot @ '' ShellPilot AI'',
          ''Hello! I'm your AI Linux assistant. What would you like to do today?'',
          ''Quick Actions'', ''Check system performance'', ''Install development tools'',
          ''Set up web server'', ''Send'', ''Workflow'']]"
    by (simp add: Home_def)
  show "map_option (map texts \<circ> child_nodes) (subtree (Home env) [1]) =
        Some [[''Terminal'', ''Session: 0m '' @ bullet @ '' Commands: 0'',
               ''Welcome to ShellPilot Terminal'', ''AI-powered Linux system administration'',
               ''raghav@shellpilot'', '':'', ''~'', ''$ '', ''_''],
              [''AI Assistant'', ''DeepSeek R1'', robot @ '' ShellPilot AI'',
               ''Hello! I'm your AI Linux assistant. What would you like to do today?'',
               ''Quick Actions'', ''Check system performance'', ''Install development tools'',
               ''Set up web server'', ''Send'', ''Workflow'']]"
    by (simp add: Home_def)
qed

text \<open>
  The same at one call: handed a shell command as its argument, \<open>Home\<close> returns the very
  same page.
\<close>

theorem Home_static_mockup_witness:
  "concat (map declared_functions sources) = [''Home'']
   \<and> concat (map imported_modules sources) = [''lucide-react'']
   \<and> Home ''ls; rm -rf /'' = Home ()
   \<and> expressions (Home ''ls; rm -rf /'') = []
   \<and> set (prop_names (Home ''ls; rm -rf /'')) = {''className'', ''type'', ''placeholder''}
   \<and> controls (Home ''ls; rm -rf /'') =
        [(''button'', [''className'']),
         (''button'', [''className'']), (''button'', [''className'']), (''button'', [''className'']),
         (''input'', [''type'', ''placeholder'', ''className'']),
         (''button'', [''className'']), (''button'', [''className''])]
   \<and> filter is_component (tags (Home ''ls; rm -rf /''))
        = [''Settings'', ''Terminal'', ''Activity'', ''MessageCircle'']
   \<and> set (filter is_component (tags (Home ''ls; rm -rf /''))) = set lucide_react
   \<and> set (filter (\<lambda>tag. \<not> is_component tag) (tags (Home ''ls; rm -rf /'')))
        = {''div'', ''header'', ''h1'', ''span'', ''button'', ''input''}
   \<and> length (elements (Home ''ls; rm -rf /'')) = 58
   \<and> map texts (child_nodes (Home ''ls; rm -rf /'')) =
        [[helicopter, ''ShellPilot'', ''Connected''],
         [''Terminal'', ''Session: 0m '' @ bullet @ '' Commands: 0'',
          ''Welcome to ShellPilot Terminal'', ''AI-powered Linux system administration'',
          ''raghav@shellpilot'', '':'', ''~'', ''$ '', ''_'',
          ''AI Assistant'', ''DeepSeek R1'', robot @ '' ShellPilot AI'',
          ''Hello! I'm your AI Linux assistant. What would you like to do today?'',
          ''Quick Actions'', ''Check system performance'', ''Install development tools'',
          ''Set up web server'', ''Send'', ''Workflow'']]
   \<and> map_option (map texts \<circ> child_nodes) (subtree (Home ''ls; rm -rf /'') [1]) =
        Some [[''Terminal'', ''Session: 0m '' @ bullet @ '' Commands: 0'',
               ''Welcome to ShellPilot Terminal'', ''AI-powered Linux system administration'',
               ''raghav@shellpilot'', '':'', ''~'', ''$ '', ''_''],
              [''AI Assistant'', ''DeepSeek R1'', robot @ '' ShellPilot AI'',
               ''Hello! I'm your AI Linux assistant. What would you like to do today?'',
               ''Quick Actions'', ''Check system performance'', ''Install development tools'',
               ''Set up web server'', ''Send'', ''Workflow'']]"
  by (rule Home_static_mockup)

text \<open>
  Claim C9. \<open>Home\<close> is deterministic: it takes no props and reads no state, randomness
  or time, so any two invocations, in whatever two environments (even of different
  kinds), return the same element tree.
\<close>

theorem Home_deterministic:
  "Home (env1 :: 'a) = Home (env2 :: 'b)"
  by (simp add: Home_def)

theorem Home_deterministic_witness:
  "Home (True, 0 :: nat) = Home ''another call''"
  by (rule Home_deterministic)

text \<open>
  Claim C10. The connection indicator and the session counters are constants of the
  markup. In every environment, the second child of the indicator group in the header
  (source lines 17 to 20) is a span holding exactly the text \<open>Connected\<close>, and the
  second child of the counter group in the terminal header (lines 40 to 43) is a span
  holding exactly \<open>Session: 0m\<close>, a bullet, \<open>Commands: 0\<close>; both texts are among the
  text runs of the page. No connection state or command activity can change them.
\<close>

theorem Home_indicators_constant:
  "subtree (Home env) [0, 0, 1, 0, 1] = Some (Element ''span'' [] [JsxText ''Connected''])
   \<and> subtree (Home env) [1, 0, 0, 0, 0, 1, 1]
       = Some (Element ''span'' [] [JsxText (''Session: 0m '' @ bullet @ '' Commands: 0'')])
   \<and> ''Connected'' \<in> set (texts (Home env))
   \<and> ''Session: 0m '' @ bullet @ '' Commands: 0'' \<in> set (texts (Home env))"
proof (intro conjI)
  show "subtree (Home env) [0, 0, 1, 0, 1] = Some (Element ''span'' [] [JsxText ''Connected''])"
    by (simp add: Home_def)
  show "subtree (Home env) [1, 0, 0, 0, 0, 1, 1]
      = Some (Element ''span'' [] [JsxText (''Session: 0m '' @ bullet @ '' Commands: 0'')])"
    by (simp add: Home_def)
  show "''Connected'' \<in> set (texts (Home env))"
    by (simp add: Home_def)
  show "''Session: 0m '' @ bullet @ '' Commands: 0'' \<in> set (texts (Home env))"
    by (simp add: Home_def)
qed

text \<open>
  The same at one environment: the connection is down, the session is 12 minutes old and
  5 commands have run, and the page still says \<open>Connected\<close> and counts 0 and 0.
\<close>

theorem Home_indicators_constant_witness:
  "subtree (Home (False, 12 :: nat, 5 :: nat)) [0, 0, 1, 0, 1]
       = Some (Element ''span'' [] [JsxText ''Connected''])
   \<and> subtree (Home (False, 12 :: nat, 5 :: nat)) [1, 0, 0, 0, 0, 1, 1]
       = Some (Element ''span'' [] [JsxText (''Session: 0m '' @ bullet @ '' Commands: 0'')])
   \<and> ''Connected'' \<in> set (texts (Home (False, 12 :: nat, 5 :: nat)))
   \<and> ''Session: 0m '' @ bullet @ '' Commands: 0'' \<in> set (texts (Home (False, 12 :: nat, 5 :: nat)))"
  by (rule Home_indicators_constant)

end
